theory Spec2Isabelle
  imports Complex_Main
begin

section \<open>The JavaScript values the codec handles\<close>

text \<open>
  The module \<^verbatim>\<open>04-core-code/utils/csv-parser.js\<close> converts a quote object to CSV text
  (\<^verbatim>\<open>dataToCsv\<close>) and back (\<^verbatim>\<open>csvToData\<close>, with the fallback \<^verbatim>\<open>csvToData_OldFormat\<close>).
  The code is dynamically typed and leans on JavaScript's coercions (\<^verbatim>\<open>||\<close>, \<^verbatim>\<open>String\<close>,
  \<^verbatim>\<open>parseInt\<close>, \<^verbatim>\<open>parseFloat\<close>, \<^verbatim>\<open>toFixed\<close>), so the embedding starts with these.

  \<^item> A string is a \<open>string\<close>; one \<open>char\<close> stands for one code unit in the range 0..255.
  \<^item> A number is \<open>NaN\<close>, an infinity, or a finite value held as an exact rational:
    the binary64 rounding of JavaScript is not part of the model, so a decimal numeral
    denotes exactly its decimal value.
  \<^item> A scalar is one of the primitive values a field of the quote object may hold.
  A result is \<open>error + 'a\<close>: \<open>Inl\<close> is an exception that leaves the function.
\<close>

datatype jsnum = NaN | PosInf | NegInf | Fin rat

datatype scalar = Undefined | Null | Bool bool | Num jsnum | Str string

datatype error = TypeError | ReferenceError

type_synonym obj = "(string \<times> scalar) list"

subsection \<open>Strings\<close>

definition newline :: char where
  "newline = CHR 0x0A"

definition comma :: char where
  "comma = CHR '',''"

definition isWhiteSpace :: "char \<Rightarrow> bool" where
  \<comment> \<open>White space and line terminators of ECMAScript among the code units 0..255.\<close>
  "isWhiteSpace c =
     (c \<in> set [CHR 0x09, CHR 0x0A, CHR 0x0B, CHR 0x0C, CHR 0x0D, CHR 0x20, CHR 0xA0])"

definition trimStart :: "string \<Rightarrow> string" where
  "trimStart s = dropWhile isWhiteSpace s"

definition trim :: "string \<Rightarrow> string" where
  "trim s = rev (dropWhile isWhiteSpace (rev (dropWhile isWhiteSpace s)))"

fun splitOn :: "char \<Rightarrow> string \<Rightarrow> string list" where
  \<comment> \<open>\<^verbatim>\<open>s.split(c)\<close> for a separator of one character: never empty, \<^verbatim>\<open>''.split(c)\<close> is \<^verbatim>\<open>['']\<close>.\<close>
  "splitOn c [] = [[]]"
| "splitOn c (x # xs) =
     (if x = c then [] # splitOn c xs
      else (case splitOn c xs of [] \<Rightarrow> [[x]] | y # ys \<Rightarrow> (x # y) # ys))"

fun join :: "string \<Rightarrow> string list \<Rightarrow> string" where
  "join sep [] = []"
| "join sep [x] = x"
| "join sep (x # y # zs) = x @ sep @ join sep (y # zs)"

definition startsWith :: "string \<Rightarrow> string \<Rightarrow> bool" where
  \<comment> \<open>\<^verbatim>\<open>s.startsWith(p)\<close>, written \<open>startsWith p s\<close>.\<close>
  "startsWith p s = (take (length p) s = p)"

definition lowerChar :: "char \<Rightarrow> char" where
  "lowerChar c =
     (let n = (of_char c :: nat)
      in if (65 \<le> n \<and> n \<le> 90) \<or> (192 \<le> n \<and> n \<le> 222 \<and> n \<noteq> 215)
         then char_of (n + 32) else c)"

definition toLowerCase :: "string \<Rightarrow> string" where
  "toLowerCase s = map lowerChar s"

definition replaceNewlines :: "string \<Rightarrow> string" where
  \<comment> \<open>\<^verbatim>\<open>s.replace(/\n/g, ' ')\<close>\<close>
  "replaceNewlines s = map (\<lambda>c. if c = newline then CHR '' '' else c) s"

fun indexFrom :: "int \<Rightarrow> ('a \<Rightarrow> bool) \<Rightarrow> 'a list \<Rightarrow> int" where
  "indexFrom i P [] = - 1"
| "indexFrom i P (x # xs) = (if P x then i else indexFrom (i + 1) P xs)"

definition findIndex :: "('a \<Rightarrow> bool) \<Rightarrow> 'a list \<Rightarrow> int" where
  "findIndex P xs = indexFrom 0 P xs"

definition indexOf :: "'a \<Rightarrow> 'a list \<Rightarrow> int" where
  \<comment> \<open>\<^verbatim>\<open>xs.indexOf(x)\<close>: the first position of \<open>x\<close>, or \<open>-1\<close>.\<close>
  "indexOf x xs = indexFrom 0 (\<lambda>y. y = x) xs"

subsection \<open>Numbers to text\<close>

definition digitChar :: "nat \<Rightarrow> char" where
  "digitChar d = ''0123456789'' ! d"

fun natToString :: "nat \<Rightarrow> string" where
  "natToString n =
     (if n < 10 then [digitChar n] else natToString (n div 10) @ [digitChar (n mod 10)])"

declare natToString.simps [simp del]

fun fracDigits :: "nat \<Rightarrow> rat \<Rightarrow> string" where
  \<comment> \<open>The decimal digits of a fraction in \<open>[0, 1)\<close>, until it is exhausted (or the fuel is).\<close>
  "fracDigits 0 r = []"
| "fracDigits (Suc k) r =
     (if r = 0 then []
      else digitChar (nat \<lfloor>10 * r\<rfloor>) # fracDigits k (10 * r - of_int \<lfloor>10 * r\<rfloor>))"

definition stripZeros :: "string \<Rightarrow> string" where
  "stripZeros ds = rev (dropWhile (\<lambda>c. c = CHR ''0'') (rev ds))"

definition expToString :: "rat \<Rightarrow> string" where
  \<comment> \<open>Exponent notation of \<^verbatim>\<open>Number::toString\<close>, for a positive value outside \<open>[1e-6, 1e21)\<close>.\<close>
  "expToString a =
     (let ip = natToString (nat \<lfloor>a\<rfloor>);
          fd = fracDigits 1100 (a - of_int \<lfloor>a\<rfloor>);
          z = length (takeWhile (\<lambda>c. c = CHR ''0'') fd);
          s = (if 1 \<le> a then stripZeros (ip @ fd) else dropWhile (\<lambda>c. c = CHR ''0'') fd);
          e = (if 1 \<le> a then int (length ip) - 1 else - int z - 1);
          m = (case s of [] \<Rightarrow> [] | [d] \<Rightarrow> [d] | d # ds \<Rightarrow> d # CHR ''.'' # ds)
      in m @ ''e'' @ (if 0 \<le> e then ''+'' else ''-'') @ natToString (nat \<bar>e\<bar>))"

definition posToString :: "rat \<Rightarrow> string" where
  "posToString a =
     (if a = of_int \<lfloor>a\<rfloor> \<and> a < 10 ^ 21 then natToString (nat \<lfloor>a\<rfloor>)
      else if 10 ^ 21 \<le> a \<or> a < 1 / 10 ^ 6 then expToString a
      else natToString (nat \<lfloor>a\<rfloor>) @ ''.'' @ fracDigits 1100 (a - of_int \<lfloor>a\<rfloor>))"

definition numToString :: "jsnum \<Rightarrow> string" where
  \<comment> \<open>\<^verbatim>\<open>String(x)\<close> for a number.\<close>
  "numToString x =
     (case x of
        NaN \<Rightarrow> ''NaN''
      | PosInf \<Rightarrow> ''Infinity''
      | NegInf \<Rightarrow> ''-Infinity''
      | Fin r \<Rightarrow> (if r < 0 then ''-'' @ posToString (- r) else posToString r))"

definition toFixed2 :: "jsnum \<Rightarrow> string" where
  \<comment> \<open>\<^verbatim>\<open>x.toFixed(2)\<close>: round half up on the magnitude, two digits after the point.\<close>
  "toFixed2 x =
     (case x of
        Fin r \<Rightarrow>
          (if 10 ^ 21 \<le> \<bar>r\<bar> then numToString x
           else let m = natToString (nat \<lfloor>\<bar>r\<bar> * 100 + 1 / 2\<rfloor>);
                    m' = (if length m \<le> 2 then replicate (3 - length m) (CHR ''0'') @ m else m)
                in (if r < 0 then ''-'' else '''')
                   @ take (length m' - 2) m' @ ''.'' @ drop (length m' - 2) m')
      | _ \<Rightarrow> numToString x)"

subsection \<open>Text to numbers\<close>

definition isDigit :: "char \<Rightarrow> bool" where
  "isDigit c = (c \<in> set ''0123456789'')"

definition digitVal :: "char \<Rightarrow> nat" where
  "digitVal c = length (takeWhile (\<lambda>d. d \<noteq> c) ''0123456789'')"

definition digitsVal :: "string \<Rightarrow> nat" where
  "digitsVal ds = foldl (\<lambda>a c. 10 * a + digitVal c) 0 ds"

definition takeSign :: "string \<Rightarrow> bool \<times> string" where
  \<comment> \<open>An optional sign: whether it is a minus, and the rest of the text.\<close>
  "takeSign t =
     (case t of
        [] \<Rightarrow> (False, [])
      | c # r \<Rightarrow> if c = CHR ''-'' then (True, r) else if c = CHR ''+'' then (False, r) else (False, t))"

definition parseInt10 :: "string \<Rightarrow> jsnum" where
  \<comment> \<open>\<^verbatim>\<open>parseInt(s, 10)\<close>: leading white space, a sign, the longest run of digits.\<close>
  "parseInt10 s =
     (let (neg, u) = takeSign (trimStart s);
          ds = takeWhile isDigit u
      in if ds = [] then NaN
         else Fin (of_int ((if neg then - 1 else 1) * int (digitsVal ds))))"

definition scale10 :: "rat \<Rightarrow> int \<Rightarrow> rat" where
  "scale10 m e = (if 0 \<le> e then m * 10 ^ nat e else m / 10 ^ nat (- e))"

definition exponentPart :: "string \<Rightarrow> int" where
  \<comment> \<open>The value of an exponent part \<^verbatim>\<open>e[+-]digits\<close> at the head of the text, 0 without one.\<close>
  "exponentPart r =
     (case r of
        [] \<Rightarrow> 0
      | c # r' \<Rightarrow>
          if c = CHR ''e'' \<or> c = CHR ''E'' then
            (let (neg, u) = takeSign r'; ds = takeWhile isDigit u
             in if ds = [] then 0 else (if neg then - 1 else 1) * int (digitsVal ds))
          else 0)"

definition parseFloat :: "string \<Rightarrow> jsnum" where
  \<comment> \<open>\<^verbatim>\<open>parseFloat(s)\<close>: the longest prefix of the trimmed text that is a decimal literal.\<close>
  "parseFloat s =
     (let (neg, u) = takeSign (trimStart s)
      in if startsWith ''Infinity'' u then (if neg then NegInf else PosInf)
         else
           let ip = takeWhile isDigit u;
               r1 = dropWhile isDigit u;
               (fp, r2) = (case r1 of
                             [] \<Rightarrow> ([], [])
                           | c # r \<Rightarrow> if c = CHR ''.''
                                      then (takeWhile isDigit r, dropWhile isDigit r)
                                      else ([], r1))
           in if ip = [] \<and> fp = [] then NaN
              else Fin ((if neg then - 1 else 1)
                        * scale10 (of_nat (digitsVal (ip @ fp))) (exponentPart r2 - int (length fp))))"

subsection \<open>Coercions\<close>

definition toStr :: "scalar \<Rightarrow> string" where
  \<comment> \<open>\<^verbatim>\<open>String(v)\<close>\<close>
  "toStr v =
     (case v of
        Undefined \<Rightarrow> ''undefined''
      | Null \<Rightarrow> ''null''
      | Bool b \<Rightarrow> (if b then ''true'' else ''false'')
      | Num n \<Rightarrow> numToString n
      | Str s \<Rightarrow> s)"

definition truthy :: "scalar \<Rightarrow> bool" where
  "truthy v =
     (case v of
        Undefined \<Rightarrow> False
      | Null \<Rightarrow> False
      | Bool b \<Rightarrow> b
      | Num n \<Rightarrow> n \<noteq> NaN \<and> n \<noteq> Fin 0
      | Str s \<Rightarrow> s \<noteq> [])"

definition orElse :: "scalar \<Rightarrow> scalar \<Rightarrow> scalar" where
  \<comment> \<open>\<^verbatim>\<open>a || b\<close>\<close>
  "orElse a b = (if truthy a then a else b)"

definition numOrNull :: "jsnum \<Rightarrow> scalar" where
  \<comment> \<open>\<^verbatim>\<open>n || null\<close> for a number \<open>n\<close>\<close>
  "numOrNull n = orElse (Num n) Null"

definition cellAt :: "string list \<Rightarrow> nat \<Rightarrow> scalar" where
  \<comment> \<open>\<^verbatim>\<open>values[k]\<close>: \<^verbatim>\<open>undefined\<close> beyond the end of the array.\<close>
  "cellAt values k = (if k < length values then Str (values ! k) else Undefined)"

fun objSet :: "string \<Rightarrow> scalar \<Rightarrow> obj \<Rightarrow> obj" where
  "objSet k v [] = [(k, v)]"
| "objSet k v (p # ps) = (if fst p = k then (k, v) # ps else p # objSet k v ps)"

definition assign :: "string \<Rightarrow> scalar \<Rightarrow> obj \<Rightarrow> obj" where
  \<comment> \<open>\<^verbatim>\<open>o[k] = v\<close> on a plain object, \<open>v\<close> primitive: a no-op for the key \<^verbatim>\<open>__proto__\<close>
      (the inherited setter ignores a value that is not an object).\<close>
  "assign k v ob = (if k = ''__proto__'' then ob else objSet k v ob)"

section \<open>The data model\<close>

text \<open>
  A line item is an object with the fourteen fields the codec reads and writes, and the
  \<^verbatim>\<open>itemId\<close> the parser adds. A field that is absent is \<open>Undefined\<close>.
\<close>

record item =
  itemId :: scalar
  width :: scalar
  height :: scalar
  fabricType :: scalar
  linePrice :: scalar
  location :: scalar
  fabric :: scalar
  color :: scalar
  over :: scalar
  oi :: scalar
  lr :: scalar
  dual :: scalar
  chain :: scalar
  winder :: scalar
  motor :: scalar

text \<open>
  The quote object read by \<^verbatim>\<open>dataToCsv\<close>. An object-valued property that is
  \<^verbatim>\<open>undefined\<close> or \<^verbatim>\<open>null\<close> is \<open>None\<close>. The fields \<open>productItems\<close> and
  \<open>quoteF1Snapshot\<close> are the properties \<^verbatim>\<open>items\<close> and \<^verbatim>\<open>f1Snapshot\<close> of the source
  (the parse result has properties of the same names).
\<close>

record productData =
  productItems :: "item list option"

record customerData =
  name :: scalar
  address :: scalar
  phone :: scalar
  email :: scalar

record uiMetadata =
  lfModifiedRowIndexes :: "scalar list option"

record quoteData =
  currentProduct :: scalar
  products :: "(string \<times> productData) list option"
  uiMetadata :: "uiMetadata option"
  quoteId :: scalar
  issueDate :: scalar
  dueDate :: scalar
  customer :: "customerData option"
  quoteF1Snapshot :: "obj option"

text \<open>The result of a parse: \<^verbatim>\<open>{ items, lfIndexes, f1Snapshot, f3Data }\<close>.\<close>

record f3Data =
  f3Customer :: obj
  f3Fields :: obj

record parsed =
  items :: "item list"
  lfIndexes :: "nat list"
  f1Snapshot :: obj
  f3Data :: f3Data

section \<open>The schema registry\<close>

definition f3SnapshotKeys :: "string list" where
  "f3SnapshotKeys =
     [''quoteId'', ''issueDate'', ''dueDate'',
      ''customer.name'', ''customer.address'', ''customer.phone'', ''customer.email'']"

definition f1SnapshotKeys :: "string list" where
  "f1SnapshotKeys =
     [''winder_qty'', ''motor_qty'', ''charger_qty'', ''cord_qty'',
      ''remote_1ch_qty'', ''remote_16ch_qty'', ''dual_combo_qty'', ''dual_slim_qty'',
      ''discountPercentage'']"

definition itemHeaders :: "string list" where
  "itemHeaders =
     [''#'', ''Width'', ''Height'', ''Type'', ''Price'',
      ''Location'', ''F-Name'', ''F-Color'', ''Over'', ''O/I'', ''L/R'',
      ''Dual'', ''Chain'', ''Winder'', ''Motor'', ''IsLF'']"

section \<open>The serializer\<close>

definition getNestedValue :: "quoteData \<Rightarrow> (customerData \<Rightarrow> scalar) \<Rightarrow> scalar" where
  \<comment> \<open>\<^verbatim>\<open>getNestedValue(quoteData, 'customer.<field>')\<close>: the empty string when the
      customer object or the field is missing.\<close>
  "getNestedValue q field =
     (case customer q of
        None \<Rightarrow> Str []
      | Some c \<Rightarrow> (if field c \<noteq> Undefined then field c else Str []))"

definition f1Value :: "obj \<Rightarrow> string \<Rightarrow> scalar" where
  "f1Value snap key =
     (case map_of snap key of
        None \<Rightarrow> Str []
      | Some v \<Rightarrow> (if v \<noteq> Null \<and> v \<noteq> Undefined then v else Str []))"

definition quoteCell :: "string \<Rightarrow> string" where
  \<comment> \<open>A cell holding a comma is wrapped in double quotes.\<close>
  "quoteCell s = (if comma \<in> set s then [CHR 0x22] @ s @ [CHR 0x22] else s)"

definition projectCell :: "scalar \<Rightarrow> string" where
  "projectCell v = quoteCell (replaceNewlines (toStr v))"

definition itemCell :: "scalar \<Rightarrow> string" where
  "itemCell v = quoteCell (toStr v)"

definition projectRaw :: "quoteData \<Rightarrow> scalar list" where
  "projectRaw q =
     [orElse (quoteId q) (Str []),
      orElse (issueDate q) (Str []),
      orElse (dueDate q) (Str []),
      getNestedValue q name,
      getNestedValue q address,
      getNestedValue q phone,
      getNestedValue q email]
     @ map (f1Value (case quoteF1Snapshot q of None \<Rightarrow> [] | Some snap \<Rightarrow> snap)) f1SnapshotKeys"

definition projectValues :: "quoteData \<Rightarrow> string list" where
  "projectValues q = map projectCell (projectRaw q)"

definition priceCell :: "scalar \<Rightarrow> error + scalar" where
  \<comment> \<open>\<^verbatim>\<open>item.linePrice !== null ? item.linePrice.toFixed(2) : ''\<close>: only a number has
      \<^verbatim>\<open>toFixed\<close>; on \<^verbatim>\<open>undefined\<close> the property read throws, on a string or a boolean
      the call does.\<close>
  "priceCell p =
     (case p of
        Null \<Rightarrow> Inr (Str [])
      | Num n \<Rightarrow> Inr (Str (toFixed2 n))
      | _ \<Rightarrow> Inl TypeError)"

definition includesIndex :: "scalar list \<Rightarrow> nat \<Rightarrow> bool" where
  \<comment> \<open>\<^verbatim>\<open>lfModifiedRowIndexes.includes(index)\<close>\<close>
  "includesIndex lf index = (Num (Fin (of_nat index)) \<in> set lf)"

definition rowData :: "scalar list \<Rightarrow> nat \<Rightarrow> item \<Rightarrow> scalar \<Rightarrow> scalar list" where
  "rowData lf index it price =
     [Num (Fin (of_nat index + 1)),
      orElse (width it) (Str []),
      orElse (height it) (Str []),
      orElse (fabricType it) (Str []),
      price,
      orElse (location it) (Str []),
      orElse (fabric it) (Str []),
      orElse (color it) (Str []),
      orElse (over it) (Str []),
      orElse (oi it) (Str []),
      orElse (lr it) (Str []),
      orElse (dual it) (Str []),
      orElse (chain it) (Str []),
      orElse (winder it) (Str []),
      orElse (motor it) (Str []),
      Num (Fin (if includesIndex lf index then 1 else 0))]"

definition hasSize :: "item \<Rightarrow> bool" where
  \<comment> \<open>\<^verbatim>\<open>item.width || item.height\<close>\<close>
  "hasSize it = (truthy (width it) \<or> truthy (height it))"

definition itemRow :: "scalar list \<Rightarrow> nat \<Rightarrow> item \<Rightarrow> error + string option" where
  \<comment> \<open>The callback of \<^verbatim>\<open>items.map\<close>: a row, \<^verbatim>\<open>null\<close> (here \<open>None\<close>), or an exception.\<close>
  "itemRow lf index it =
     (if hasSize it then
        (case priceCell (linePrice it) of
           Inl e \<Rightarrow> Inl e
         | Inr price \<Rightarrow> Inr (Some (join [comma] (map itemCell (rowData lf index it price)))))
      else Inr None)"

fun mapRows :: "scalar list \<Rightarrow> nat \<Rightarrow> item list \<Rightarrow> error + string option list" where
  \<comment> \<open>\<^verbatim>\<open>items.map(callback)\<close> from position \<open>index\<close> on: the first exception ends it.\<close>
  "mapRows lf index [] = Inr []"
| "mapRows lf index (it # its) =
     (case itemRow lf index it of
        Inl e \<Rightarrow> Inl e
      | Inr row \<Rightarrow> (case mapRows lf (Suc index) its of
                     Inl e \<Rightarrow> Inl e
                   | Inr rows \<Rightarrow> Inr (row # rows)))"

definition itemRows :: "scalar list \<Rightarrow> item list \<Rightarrow> error + string list" where
  \<comment> \<open>\<^verbatim>\<open>.filter(row => row !== null)\<close> after the map.\<close>
  "itemRows lf its =
     (case mapRows lf 0 its of
        Inl e \<Rightarrow> Inl e
      | Inr rows \<Rightarrow> Inr (concat (map (\<lambda>row. case row of None \<Rightarrow> [] | Some r \<Rightarrow> [r]) rows)))"

definition activeItems :: "quoteData \<Rightarrow> item list option" where
  \<comment> \<open>\<^verbatim>\<open>quoteData?.products?.[currentProductKey]\<close> and its \<^verbatim>\<open>items\<close>, \<open>None\<close> when
      either is missing (the early \<^verbatim>\<open>return ""\<close>). The key is converted to a string;
      the first binding of a key in the list is its property.\<close>
  "activeItems q =
     (case products q of
        None \<Rightarrow> None
      | Some ps \<Rightarrow>
          (case map_of ps (toStr (currentProduct q)) of
             None \<Rightarrow> None
           | Some pd \<Rightarrow> productItems pd))"

definition lfRows :: "quoteData \<Rightarrow> scalar list" where
  \<comment> \<open>\<^verbatim>\<open>quoteData?.uiMetadata?.lfModifiedRowIndexes || []\<close>\<close>
  "lfRows q =
     (case uiMetadata q of
        None \<Rightarrow> []
      | Some u \<Rightarrow> (case lfModifiedRowIndexes u of None \<Rightarrow> [] | Some lf \<Rightarrow> lf))"

definition dataToCsv :: "quoteData option \<Rightarrow> error + string" where
  \<comment> \<open>The argument is \<open>None\<close> for \<^verbatim>\<open>null\<close> or \<^verbatim>\<open>undefined\<close>.\<close>
  "dataToCsv quote =
     (case quote of
        None \<Rightarrow> Inr []
      | Some q \<Rightarrow>
          (case activeItems q of
             None \<Rightarrow> Inr []
           | Some its \<Rightarrow>
               (case itemRows (lfRows q) its of
                  Inl e \<Rightarrow> Inl e
                | Inr rows \<Rightarrow>
                    Inr (join [newline]
                          ([join [comma] (f3SnapshotKeys @ f1SnapshotKeys),
                            join [comma] (projectValues q),
                            [],
                            join [comma] itemHeaders]
                           @ rows)))))"

section \<open>The parsers\<close>

text \<open>
  Two things reach the parsers from outside their argument. \<^verbatim>\<open>Date.now()\<close> is read once
  for every item that is built: \<open>clock k\<close> is the reading at the \<open>k\<close>-th call of a parse
  (the calls are numbered from 0, and the \<open>k\<close>-th call builds the item at position \<open>k\<close>).
  The legacy parser evaluates \<^verbatim>\<open>Object.keys(initialState.quoteData.f1Snapshot)\<close>, and the
  module neither declares nor imports \<^verbatim>\<open>initialState\<close>: the identifier is resolved in the
  global scope, which is a parameter here.
\<close>

datatype globalScope =
    NotDefined
  | Malformed
  | DefaultState "string list"

text \<open>
  \<open>NotDefined\<close>: no global \<^verbatim>\<open>initialState\<close> exists, the reference throws a ReferenceError.
  \<open>Malformed\<close>: one exists, but \<^verbatim>\<open>.quoteData.f1Snapshot\<close> is not there, a TypeError.
  \<open>DefaultState ks\<close>: the snapshot object exists and \<open>ks\<close> are its keys.
\<close>

definition snapshotKeysOf :: "globalScope \<Rightarrow> error + string list" where
  "snapshotKeysOf g =
     (case g of
        NotDefined \<Rightarrow> Inl ReferenceError
      | Malformed \<Rightarrow> Inl TypeError
      | DefaultState ks \<Rightarrow> Inr ks)"

definition numberOrText :: "string \<Rightarrow> scalar" where
  \<comment> \<open>\<^verbatim>\<open>isNaN(parseFloat(value)) ? value : parseFloat(value)\<close>\<close>
  "numberOrText v = (if parseFloat v = NaN then Str v else Num (parseFloat v))"

definition makeItem :: "(nat \<Rightarrow> int) \<Rightarrow> nat \<Rightarrow> string list \<Rightarrow> item" where
  \<comment> \<open>The object literal both parsers build from the cells of a line; \<open>n\<close> is
      \<^verbatim>\<open>items.length\<close> at that moment.\<close>
  "makeItem clock n values =
     \<lparr> itemId = Str (''item-'' @ numToString (Fin (of_int (clock n))) @ ''-''
                     @ numToString (Fin (of_nat n))),
       width = numOrNull (parseInt10 (toStr (cellAt values 1))),
       height = numOrNull (parseInt10 (toStr (cellAt values 2))),
       fabricType = orElse (cellAt values 3) Null,
       linePrice = numOrNull (parseFloat (toStr (cellAt values 4))),
       location = orElse (cellAt values 5) (Str []),
       fabric = orElse (cellAt values 6) (Str []),
       color = orElse (cellAt values 7) (Str []),
       over = orElse (cellAt values 8) (Str []),
       oi = orElse (cellAt values 9) (Str []),
       lr = orElse (cellAt values 10) (Str []),
       dual = orElse (cellAt values 11) (Str []),
       chain = numOrNull (parseInt10 (toStr (cellAt values 12))),
       winder = orElse (cellAt values 13) (Str []),
       motor = orElse (cellAt values 14) (Str []) \<rparr>"

definition isLfCell :: "int \<Rightarrow> string list \<Rightarrow> bool" where
  \<comment> \<open>\<^verbatim>\<open>isLfIndex > -1 && parseInt(values[isLfIndex], 10) === 1\<close>\<close>
  "isLfCell isLfIndex values =
     (- 1 < isLfIndex \<and> parseInt10 (toStr (cellAt values (nat isLfIndex))) = Fin 1)"

definition skipLine :: "string \<Rightarrow> bool" where
  \<comment> \<open>On the trimmed line: \<^verbatim>\<open>!trimmedLine || trimmedLine.toLowerCase().startsWith('total')\<close>\<close>
  "skipLine t = (t = [] \<or> startsWith ''total'' (toLowerCase t))"

definition pushItem :: "(nat \<Rightarrow> int) \<Rightarrow> int \<Rightarrow> string list \<Rightarrow> item list \<times> nat list
                        \<Rightarrow> item list \<times> nat list" where
  \<comment> \<open>\<^verbatim>\<open>items.push(item)\<close>, then \<^verbatim>\<open>lfIndexes.push(items.length - 1)\<close> for an LF row.\<close>
  "pushItem clock isLfIndex values st =
     (let its = fst st @ [makeItem clock (length (fst st)) values]
      in (its, if isLfCell isLfIndex values then snd st @ [length its - 1] else snd st))"

subsection \<open>The canonical format\<close>

definition projectStep :: "string list \<Rightarrow> obj \<times> f3Data \<Rightarrow> string \<times> nat \<Rightarrow> obj \<times> f3Data" where
  \<comment> \<open>The callback of \<^verbatim>\<open>pheaders.forEach\<close>, on the pair of the two objects.\<close>
  "projectStep pvalues st hi =
     (let header = fst hi; index = snd hi; value = orElse (cellAt pvalues index) Null
      in if \<not> truthy value then st
         else
           let finalValue = numberOrText (toStr value)
           in if header \<in> set f1SnapshotKeys then (assign header finalValue (fst st), snd st)
              else if startsWith ''customer.'' header then
                (fst st,
                 (snd st)\<lparr>f3Customer :=
                    assign (splitOn (CHR ''.'') header ! 1) finalValue (f3Customer (snd st))\<rparr>)
              else if header \<in> set f3SnapshotKeys then
                (fst st, (snd st)\<lparr>f3Fields := assign header finalValue (f3Fields (snd st))\<rparr>)
              else st)"

definition itemStep :: "(nat \<Rightarrow> int) \<Rightarrow> int \<Rightarrow> item list \<times> nat list \<Rightarrow> string
                        \<Rightarrow> item list \<times> nat list" where
  \<comment> \<open>The callback of \<^verbatim>\<open>itemDataLines.forEach\<close>.\<close>
  "itemStep clock isLfIndex st line =
     (let trimmedLine = trim line
      in if skipLine trimmedLine then st
         else pushItem clock isLfIndex (splitOn comma trimmedLine) st)"

definition parseCanonical :: "(nat \<Rightarrow> int) \<Rightarrow> string list \<Rightarrow> parsed" where
  \<comment> \<open>The body of \<^verbatim>\<open>csvToData\<close> after the line count test, on at least four lines.\<close>
  "parseCanonical clock lines =
     (let pheaders = splitOn comma (lines ! 0);
          pvalues = splitOn comma (lines ! 1);
          project = foldl (projectStep pvalues)
                          ([], \<lparr>f3Customer = [], f3Fields = []\<rparr>)
                          (zip pheaders [0 ..< length pheaders]);
          isLfIndex = indexOf ''IsLF'' (splitOn comma (lines ! 3));
          st = foldl (itemStep clock isLfIndex) ([], []) (drop 4 lines)
      in \<lparr> items = fst st, lfIndexes = snd st,
           f1Snapshot = fst project, f3Data = snd project \<rparr>)"

subsection \<open>The legacy formats\<close>

record legacyState =
  lsSnapshot :: obj
  lsItems :: "item list"
  lsLf :: "nat list"

definition hasOwnProperty :: "obj \<Rightarrow> string \<Rightarrow> error + bool" where
  \<comment> \<open>\<^verbatim>\<open>f1Snapshot.hasOwnProperty(key)\<close>: once the object has a property of that very
      name (its value is a string or a number), the call throws.\<close>
  "hasOwnProperty ob key =
     (if ''hasOwnProperty'' \<in> fst ` set ob then Inl TypeError else Inr (key \<in> fst ` set ob))"

definition embeddedSnapshot :: "string list \<Rightarrow> string list \<Rightarrow> string list \<Rightarrow> obj \<Rightarrow> obj" where
  \<comment> \<open>The \<^verbatim>\<open>index === 0\<close> block: the snapshot columns of the first data line. The lookup
      \<^verbatim>\<open>snapshotIndices[key]\<close> is not a number for the key \<^verbatim>\<open>__proto__\<close>.\<close>
  "embeddedSnapshot snapshotKeys headers values snap =
     foldl (\<lambda>sn key.
              let colIndex = (if key = ''__proto__'' then - 1 else indexOf key headers)
              in if - 1 < colIndex \<and> cellAt values (nat colIndex) \<noteq> Undefined
                    \<and> cellAt values (nat colIndex) \<noteq> Str []
                 then assign key (numberOrText (toStr (cellAt values (nat colIndex)))) sn
                 else sn)
           snap snapshotKeys"

definition legacyStep :: "(nat \<Rightarrow> int) \<Rightarrow> string list \<Rightarrow> string list \<Rightarrow> int
                          \<Rightarrow> legacyState \<Rightarrow> string \<times> nat \<Rightarrow> error + legacyState" where
  \<comment> \<open>The callback of \<^verbatim>\<open>dataLines.forEach\<close>, with the index of the line.\<close>
  "legacyStep clock snapshotKeys headers isLfIndex st li =
     (let trimmedLine = trim (fst li); index = snd li
      in if skipLine trimmedLine then Inr st
         else
           let values = splitOn comma trimmedLine
           in if values ! 0 = ''F1_SNAPSHOT'' \<and> 3 \<le> length values then
                (case hasOwnProperty (lsSnapshot st) (values ! 1) of
                   Inl e \<Rightarrow> Inl e
                 | Inr has \<Rightarrow>
                     Inr (if has
                          then st\<lparr>lsSnapshot :=
                                   assign (values ! 1) (numberOrText (values ! 2)) (lsSnapshot st)\<rparr>
                          else st))
              else
                let snap = (if index = 0
                            then embeddedSnapshot snapshotKeys headers values (lsSnapshot st)
                            else lsSnapshot st);
                    pushed = pushItem clock isLfIndex values (lsItems st, lsLf st)
                in Inr \<lparr> lsSnapshot = snap, lsItems = fst pushed, lsLf = snd pushed \<rparr>)"

fun legacyLoop :: "(nat \<Rightarrow> int) \<Rightarrow> string list \<Rightarrow> string list \<Rightarrow> int
                   \<Rightarrow> legacyState \<Rightarrow> (string \<times> nat) list \<Rightarrow> error + legacyState" where
  "legacyLoop clock snapshotKeys headers isLfIndex st [] = Inr st"
| "legacyLoop clock snapshotKeys headers isLfIndex st (li # rest) =
     (case legacyStep clock snapshotKeys headers isLfIndex st li of
        Inl e \<Rightarrow> Inl e
      | Inr st' \<Rightarrow> legacyLoop clock snapshotKeys headers isLfIndex st' rest)"

definition isLegacyHeader :: "string \<Rightarrow> bool" where
  \<comment> \<open>\<^verbatim>\<open>line.trim() !== '' && line.startsWith('#,Width')\<close>\<close>
  "isLegacyHeader line = (trim line \<noteq> [] \<and> startsWith ''#,Width'' line)"

definition csvToData_OldFormat :: "globalScope \<Rightarrow> (nat \<Rightarrow> int) \<Rightarrow> string
                                   \<Rightarrow> error + parsed option" where
  \<comment> \<open>\<open>Inr None\<close> is the \<^verbatim>\<open>null\<close> result, \<open>Inl\<close> an exception that leaves the function.\<close>
  "csvToData_OldFormat g clock csvString =
     (let lines = splitOn newline (trim csvString);
          headerIndex = findIndex isLegacyHeader lines
      in if headerIndex = - 1 then Inr None
         else
           let headers = splitOn comma (lines ! nat headerIndex)
           in case snapshotKeysOf g of
                Inl e \<Rightarrow> Inl e
              | Inr snapshotKeys \<Rightarrow>
                  (let dataLines = drop (nat headerIndex + 1) lines;
                       isLfIndex = indexOf ''IsLF'' headers
                   in case legacyLoop clock snapshotKeys headers isLfIndex
                             \<lparr> lsSnapshot = [], lsItems = [], lsLf = [] \<rparr>
                             (zip dataLines [0 ..< length dataLines]) of
                        Inl e \<Rightarrow> Inl e
                      | Inr st \<Rightarrow>
                          Inr (Some \<lparr> items = lsItems st, lfIndexes = lsLf st,
                                      f1Snapshot = lsSnapshot st,
                                      f3Data = \<lparr>f3Customer = [], f3Fields = []\<rparr> \<rparr>)))"

subsection \<open>The entry point\<close>

definition csvToData_try :: "globalScope \<Rightarrow> (nat \<Rightarrow> int) \<Rightarrow> string \<Rightarrow> error + parsed option" where
  \<comment> \<open>The \<^verbatim>\<open>try\<close> block of \<^verbatim>\<open>csvToData\<close>.\<close>
  "csvToData_try g clock csvString =
     (let lines = splitOn newline (trim csvString)
      in if length lines < 4 then csvToData_OldFormat g clock csvString
         else Inr (Some (parseCanonical clock lines)))"

definition csvToData :: "globalScope \<Rightarrow> (nat \<Rightarrow> int) \<Rightarrow> string \<Rightarrow> error + parsed option" where
  \<comment> \<open>The two nested \<^verbatim>\<open>catch\<close> blocks: an exception of the \<^verbatim>\<open>try\<close> block leads to a
      second call of the legacy parser, and an exception of that call to \<^verbatim>\<open>null\<close>.
      The second call is given the same clock: its outcome can only be the exception
      of the first call again, whatever the clock reads.\<close>
  "csvToData g clock csvString =
     (case csvToData_try g clock csvString of
        Inr r \<Rightarrow> Inr r
      | Inl e \<Rightarrow>
          (case csvToData_OldFormat g clock csvString of
             Inr r \<Rightarrow> Inr r
           | Inl e' \<Rightarrow> Inr None))"

section \<open>Notions used to state the properties\<close>

subsection \<open>Sample inputs\<close>

definition bareItem :: item where
  \<comment> \<open>The item \<^verbatim>\<open>{}\<close>: every field absent.\<close>
  "bareItem =
     \<lparr> itemId = Undefined, width = Undefined, height = Undefined, fabricType = Undefined,
       linePrice = Undefined, location = Undefined, fabric = Undefined, color = Undefined,
       over = Undefined, oi = Undefined, lr = Undefined, dual = Undefined, chain = Undefined,
       winder = Undefined, motor = Undefined \<rparr>"

definition quoteOf :: "item list \<Rightarrow> scalar list \<Rightarrow> quoteData" where
  \<comment> \<open>A quote whose active product \<^verbatim>\<open>roller\<close> holds the given items, with the given
      \<^verbatim>\<open>lfModifiedRowIndexes\<close> and nothing else.\<close>
  "quoteOf its lf =
     \<lparr> currentProduct = Str ''roller'',
       products = Some [(''roller'', \<lparr> productItems = Some its \<rparr>)],
       uiMetadata = Some \<lparr> lfModifiedRowIndexes = Some lf \<rparr>,
       quoteId = Undefined, issueDate = Undefined, dueDate = Undefined,
       customer = None, quoteF1Snapshot = None \<rparr>"

definition legacyText :: string where
  \<comment> \<open>A legacy file of two lines: the marker line and one item.\<close>
  "legacyText = join [newline] [''#,Width,Height,Type,Price'', ''1,100,200,B1,12.50'']"

definition longLegacyText :: string where
  \<comment> \<open>A legacy file of four lines: the marker line and three items.\<close>
  "longLegacyText = join [newline]
     [''#,Width,Height,Type,Price'', ''1,100,200,B1,12.50'', ''2,50,60,B1,8.00'', ''3,70,80,S2,9.50'']"

definition legacyLfText :: string where
  "legacyLfText = join [newline] [''#,Width,Height,IsLF'', ''1,100,200,1'', ''2,50,60,0'']"

definition legacyLfParsed :: parsed where
  "legacyLfParsed =
     \<lparr> items =
         [bareItem\<lparr> itemId := Str ''item-0-0'', width := Num (Fin 100), height := Num (Fin 200),
                    fabricType := Str ''1'', linePrice := Null, location := Str [], fabric := Str [],
                    color := Str [], over := Str [], oi := Str [], lr := Str [], dual := Str [],
                    chain := Null, winder := Str [], motor := Str [] \<rparr>,
          bareItem\<lparr> itemId := Str ''item-0-1'', width := Num (Fin 50), height := Num (Fin 60),
                    fabricType := Str ''0'', linePrice := Null, location := Str [], fabric := Str [],
                    color := Str [], over := Str [], oi := Str [], lr := Str [], dual := Str [],
                    chain := Null, winder := Str [], motor := Str [] \<rparr>],
       lfIndexes = [0],
       f1Snapshot = [],
       f3Data = \<lparr> f3Customer = [], f3Fields = [] \<rparr> \<rparr>"

definition canonText :: string where
  \<comment> \<open>A canonical file of five lines with one item.\<close>
  "canonText = join [newline]
     [''quoteId,motor_qty'', ''Q7,2'', [],
      ''#,Width,Height,Type,Price,Location,IsLF'', ''1,100,200,,0.00,12,1'']"



subsection \<open>Invariants and relations\<close>

definition inRange :: "item list \<times> nat list \<Rightarrow> bool" where
  \<comment> \<open>The LF positions are strictly increasing and point into the item list.\<close>
  "inRange st = (sorted_wrt (<) (snd st) \<and> (\<forall>k \<in> set (snd st). k < length (fst st)))"

definition eraseIds :: "parsed \<Rightarrow> parsed" where
  "eraseIds r = r\<lparr>items := map (\<lambda>it. it\<lparr>itemId := Undefined\<rparr>) (items r)\<rparr>"

definition eraseIdsResult :: "error + parsed option \<Rightarrow> error + parsed option" where
  "eraseIdsResult res = map_sum id (map_option eraseIds) res"

definition sameButIds :: "item list \<times> nat list \<Rightarrow> item list \<times> nat list \<Rightarrow> bool" where
  "sameButIds s t =
     (map (\<lambda>it. it\<lparr>itemId := Undefined\<rparr>) (fst s) = map (\<lambda>it. it\<lparr>itemId := Undefined\<rparr>) (fst t)
      \<and> snd s = snd t)"

definition sameLegacy :: "legacyState \<Rightarrow> legacyState \<Rightarrow> bool" where
  "sameLegacy s t =
     (lsSnapshot s = lsSnapshot t \<and> sameButIds (lsItems s, lsLf s) (lsItems t, lsLf t))"

definition sameOutcome :: "error + legacyState \<Rightarrow> error + legacyState \<Rightarrow> bool" where
  "sameOutcome a b =
     (case a of
        Inl e \<Rightarrow> b = Inl e
      | Inr s \<Rightarrow> (case b of Inl e \<Rightarrow> False | Inr t \<Rightarrow> sameLegacy s t))"

subsection \<open>How a cell is read\<close>





definition dataLines :: "string list \<Rightarrow> string list" where
  \<comment> \<open>The item lines of a canonical text that are not skipped, trimmed.\<close>
  "dataLines ls = filter (\<lambda>t. \<not> skipLine t) (map trim (drop 4 ls))"


subsection \<open>Values that survive a round trip\<close>

definition plainText :: "string \<Rightarrow> bool" where
  "plainText s = (comma \<notin> set s \<and> newline \<notin> set s)"



definition intText :: "int \<Rightarrow> string" where
  "intText k = (if k < 0 then CHR ''-'' # natToString (nat (- k)) else natToString (nat k))"






subsection \<open>The rows of a record\<close>





subsection \<open>Round trips\<close>













section \<open>Properties\<close>

subsection \<open>The serializer on an item without a price\<close>

text \<open>
  C3 (serializer totality). The claim: \<^verbatim>\<open>dataToCsv\<close> returns a string for every record,
  also when an item lacks \<^verbatim>\<open>linePrice\<close>. The code guards the price with
  \<^verbatim>\<open>item.linePrice !== null\<close> only, so for the record whose single item is
  \<^verbatim>\<open>{ width: 100 }\<close> it evaluates \<^verbatim>\<open>undefined.toFixed(2)\<close> and throws a TypeError.
\<close>

theorem dataToCsv_throws_without_price:
  "dataToCsv (Some (quoteOf [bareItem\<lparr>width := Num (Fin 100)\<rparr>] [])) = Inl TypeError"
  by code_simp

subsection \<open>The fallback chain\<close>


text \<open>
  C2 (format-detection fallback). The claim: a text whose only structure is a line
  starting with \<^verbatim>\<open>#,Width\<close> is passed on by the canonical path and accepted by the legacy
  parser. With no global \<^verbatim>\<open>initialState\<close> (the module defines none) the legacy parser
  throws a ReferenceError on the two-line legacy file, in the \<^verbatim>\<open>try\<close> block and again in
  the \<^verbatim>\<open>catch\<close> block, and \<^verbatim>\<open>csvToData\<close> returns \<^verbatim>\<open>null\<close>.
\<close>

theorem legacy_text_is_not_accepted:
  "csvToData_OldFormat NotDefined (\<lambda>k. 0) legacyText = Inl ReferenceError
   \<and> csvToData NotDefined (\<lambda>k. 0) legacyText = Inr None"
  by code_simp

text \<open>
  With a global \<^verbatim>\<open>initialState\<close> in scope the same two-line file is accepted. A legacy
  file of four lines or more never reaches the legacy parser: the line count sends it to
  the canonical branch, which takes the marker line for the project header and the first
  three item lines for the rest of the head, so a file of three items yields none.
\<close>

lemma legacy_text_with_global_state:
  "map_sum id (map_option (\<lambda>r. map width (items r)))
     (csvToData (DefaultState f1SnapshotKeys) (\<lambda>k. 0) legacyText)
   = Inr (Some [Num (Fin 100)])"
  by code_simp

lemma long_legacy_text_is_read_as_canonical:
  "map_sum id (map_option (\<lambda>r. length (items r)))
     (csvToData (DefaultState f1SnapshotKeys) (\<lambda>k. 0) longLegacyText)
   = Inr (Some 0)"
  by code_simp





subsection \<open>The LF positions\<close>

lemma pushItem_inRange: "inRange st \<Longrightarrow> inRange (pushItem clock isLf values st)"
  by (auto simp: inRange_def pushItem_def Let_def sorted_wrt_append less_Suc_eq)

lemma itemStep_inRange: "inRange st \<Longrightarrow> inRange (itemStep clock isLf st line)"
  by (simp add: itemStep_def Let_def pushItem_inRange)

lemma foldl_itemStep_inRange: "inRange st \<Longrightarrow> inRange (foldl (itemStep clock isLf) st ls)"
  by (induction ls arbitrary: st) (simp_all add: itemStep_inRange)

lemma legacyStep_inRange:
  "legacyStep clock ks hs isLf st li = Inr st' \<Longrightarrow> inRange (lsItems st, lsLf st)
   \<Longrightarrow> inRange (lsItems st', lsLf st')"
  using pushItem_inRange [of "(lsItems st, lsLf st)" clock isLf "splitOn comma (trim (fst li))"]
  by (auto simp: legacyStep_def Let_def split: if_splits sum.splits)

lemma legacyLoop_inRange:
  "legacyLoop clock ks hs isLf st ls = Inr st' \<Longrightarrow> inRange (lsItems st, lsLf st)
   \<Longrightarrow> inRange (lsItems st', lsLf st')"
proof (induction ls arbitrary: st)
  case Nil
  then show ?case by simp
next
  case (Cons li ls)
  then show ?case
    by (auto split: sum.splits dest: legacyStep_inRange)
qed

lemma parseCanonical_inRange:
  "inRange (items (parseCanonical clock ls), lfIndexes (parseCanonical clock ls))"
  using foldl_itemStep_inRange [of "([], [])" clock "indexOf ''IsLF'' (splitOn comma (ls ! 3))" "drop 4 ls"]
  by (simp add: parseCanonical_def Let_def inRange_def)

lemma oldFormat_inRange:
  assumes "csvToData_OldFormat g clock csv = Inr (Some r)"
  shows "inRange (items r, lfIndexes r)"
proof -
  from assms obtain ks hs isLf ls st where
    loop: "legacyLoop clock ks hs isLf \<lparr> lsSnapshot = [], lsItems = [], lsLf = [] \<rparr> ls = Inr st"
    and r: "r = \<lparr> items = lsItems st, lfIndexes = lsLf st, f1Snapshot = lsSnapshot st,
                  f3Data = \<lparr>f3Customer = [], f3Fields = []\<rparr> \<rparr>"
    by (auto simp: csvToData_OldFormat_def Let_def split: if_splits sum.splits)
  have "inRange (lsItems st, lsLf st)"
    using legacyLoop_inRange [OF loop] by (simp add: inRange_def)
  with r show ?thesis by simp
qed

text \<open>
  C10 (LF positions). In every object returned by \<^verbatim>\<open>csvToData\<close> or by
  \<^verbatim>\<open>csvToData_OldFormat\<close>, \<^verbatim>\<open>lfIndexes\<close> is strictly increasing and each of its
  elements is a position of \<^verbatim>\<open>items\<close>.
\<close>

theorem lfIndexes_increasing_in_range:
  assumes "csvToData g clock csv = Inr (Some r) \<or> csvToData_OldFormat g clock csv = Inr (Some r)"
  shows "sorted_wrt (<) (lfIndexes r) \<and> (\<forall>k \<in> set (lfIndexes r). k < length (items r))"
proof -
  have "inRange (items r, lfIndexes r)"
  proof (cases "csvToData_OldFormat g clock csv = Inr (Some r)")
    case True
    then show ?thesis by (rule oldFormat_inRange)
  next
    case False
    with assms have c: "csvToData g clock csv = Inr (Some r)" by simp
    with False have "r = parseCanonical clock (splitOn newline (trim csv))"
      by (auto simp: csvToData_def csvToData_try_def Let_def split: if_splits sum.splits)
    then show ?thesis by (simp add: parseCanonical_inRange)
  qed
  then show ?thesis by (simp add: inRange_def)
qed

theorem lfIndexes_increasing_in_range_witness:
  "csvToData_OldFormat (DefaultState f1SnapshotKeys) (\<lambda>k. 0) legacyLfText = Inr (Some legacyLfParsed)
   \<and> csvToData (DefaultState f1SnapshotKeys) (\<lambda>k. 0) legacyLfText = Inr (Some legacyLfParsed)
   \<and> lfIndexes legacyLfParsed = [0]
   \<and> sorted_wrt (<) (lfIndexes legacyLfParsed)
   \<and> list_all (\<lambda>k. k < length (items legacyLfParsed)) (lfIndexes legacyLfParsed)"
proof -
  have a: "csvToData_OldFormat (DefaultState f1SnapshotKeys) (\<lambda>k. 0) legacyLfText
             = Inr (Some legacyLfParsed)"
    by code_simp
  have b: "csvToData (DefaultState f1SnapshotKeys) (\<lambda>k. 0) legacyLfText = Inr (Some legacyLfParsed)"
    by code_simp
  have c: "lfIndexes legacyLfParsed = [0]"
    by (simp add: legacyLfParsed_def)
  show ?thesis
    using a b c lfIndexes_increasing_in_range [OF disjI2 [OF a]]
          lfIndexes_increasing_in_range [OF disjI1 [OF b]]
    by (simp add: list_all_iff)
qed

subsection \<open>What a parse depends on\<close>

lemma sameButIds_length: "sameButIds s t \<Longrightarrow> length (fst s) = length (fst t)"
  unfolding sameButIds_def by (metis length_map)

lemma pushItem_sameButIds:
  assumes "sameButIds s t"
  shows "sameButIds (pushItem ca isLf values s) (pushItem cb isLf values t)"
  using assms sameButIds_length [OF assms]
  by (simp add: sameButIds_def pushItem_def Let_def makeItem_def)

lemma itemStep_sameButIds:
  "sameButIds s t \<Longrightarrow> sameButIds (itemStep ca isLf s line) (itemStep cb isLf t line)"
  by (simp add: itemStep_def Let_def pushItem_sameButIds)

lemma foldl_itemStep_sameButIds:
  "sameButIds s t \<Longrightarrow> sameButIds (foldl (itemStep ca isLf) s ls) (foldl (itemStep cb isLf) t ls)"
  by (induction ls arbitrary: s t) (simp_all add: itemStep_sameButIds)

lemma parseCanonical_eraseIds:
  "eraseIds (parseCanonical ca ls) = eraseIds (parseCanonical cb ls)"
proof -
  have "sameButIds ([], []) ([], [])"
    by (simp add: sameButIds_def)
  then have "sameButIds (foldl (itemStep ca (indexOf ''IsLF'' (splitOn comma (ls ! 3)))) ([], []) (drop 4 ls))
                        (foldl (itemStep cb (indexOf ''IsLF'' (splitOn comma (ls ! 3)))) ([], []) (drop 4 ls))"
    by (rule foldl_itemStep_sameButIds)
  then show ?thesis
    by (simp add: parseCanonical_def Let_def eraseIds_def sameButIds_def)
qed

lemma legacyStep_same:
  assumes "sameLegacy s t"
  shows "sameOutcome (legacyStep ca ks hs isLf s li) (legacyStep cb ks hs isLf t li)"
proof -
  from assms have snap: "lsSnapshot s = lsSnapshot t"
    and st: "sameButIds (lsItems s, lsLf s) (lsItems t, lsLf t)"
    by (simp_all add: sameLegacy_def)
  have push: "sameButIds (pushItem ca isLf vs (lsItems s, lsLf s)) (pushItem cb isLf vs (lsItems t, lsLf t))" for vs
    using st by (rule pushItem_sameButIds)
  show ?thesis
    using snap st push [of "splitOn comma (trim (fst li))"]
    by (auto simp: legacyStep_def Let_def sameOutcome_def sameLegacy_def sameButIds_def
             split: sum.splits)
qed

lemma legacyLoop_same:
  "sameLegacy s t \<Longrightarrow> sameOutcome (legacyLoop ca ks hs isLf s ls) (legacyLoop cb ks hs isLf t ls)"
proof (induction ls arbitrary: s t)
  case Nil
  then show ?case by (simp add: sameOutcome_def)
next
  case (Cons li ls)
  have so: "sameOutcome (legacyStep ca ks hs isLf s li) (legacyStep cb ks hs isLf t li)"
    using Cons.prems by (rule legacyStep_same)
  show ?case
  proof (cases "legacyStep ca ks hs isLf s li")
    case (Inl e)
    with so show ?thesis by (simp add: sameOutcome_def)
  next
    case (Inr s')
    with so obtain t' where t': "legacyStep cb ks hs isLf t li = Inr t'" and same: "sameLegacy s' t'"
      by (auto simp: sameOutcome_def split: sum.splits)
    from Cons.IH [OF same] Inr t' show ?thesis by simp
  qed
qed

lemma oldFormat_eraseIds:
  "eraseIdsResult (csvToData_OldFormat g ca csv) = eraseIdsResult (csvToData_OldFormat g cb csv)"
proof (cases "findIndex isLegacyHeader (splitOn newline (trim csv)) = - 1")
  case True
  then show ?thesis by (simp add: csvToData_OldFormat_def)
next
  case no: False
  show ?thesis
  proof (cases "snapshotKeysOf g")
    case (Inl e)
    with no show ?thesis by (simp add: csvToData_OldFormat_def Let_def)
  next
    case (Inr ks)
    define hs where "hs = splitOn comma (splitOn newline (trim csv) ! nat (findIndex isLegacyHeader (splitOn newline (trim csv))))"
    define ds where "ds = drop (nat (findIndex isLegacyHeader (splitOn newline (trim csv))) + 1) (splitOn newline (trim csv))"
    define init where "init = \<lparr> lsSnapshot = [], lsItems = [], lsLf = [] \<rparr>"
    have "sameLegacy init init"
      by (simp add: sameLegacy_def sameButIds_def)
    then have so: "sameOutcome (legacyLoop ca ks hs (indexOf ''IsLF'' hs) init (zip ds [0 ..< length ds]))
                               (legacyLoop cb ks hs (indexOf ''IsLF'' hs) init (zip ds [0 ..< length ds]))"
      by (rule legacyLoop_same)
    have unfold: "csvToData_OldFormat g c csv =
        (case legacyLoop c ks hs (indexOf ''IsLF'' hs) init (zip ds [0 ..< length ds]) of
           Inl e \<Rightarrow> Inl e
         | Inr st \<Rightarrow> Inr (Some \<lparr> items = lsItems st, lfIndexes = lsLf st, f1Snapshot = lsSnapshot st,
                                  f3Data = \<lparr>f3Customer = [], f3Fields = []\<rparr> \<rparr>))" for c
      using no Inr by (simp add: csvToData_OldFormat_def Let_def hs_def ds_def init_def)
    show ?thesis
      using so unfolding unfold
      by (auto simp: eraseIdsResult_def eraseIds_def sameOutcome_def sameLegacy_def sameButIds_def
               split: sum.splits)
  qed
qed

text \<open>
  In particular whether the legacy parser throws does not depend on the clock, so the
  second call in the \<^verbatim>\<open>catch\<close> block of \<^verbatim>\<open>csvToData\<close>, which reads the clock later than
  the first, throws exactly when the first did.
\<close>

lemma oldFormat_error_same:
  "(csvToData_OldFormat g ca csv = Inl e) = (csvToData_OldFormat g cb csv = Inl e)"
  using oldFormat_eraseIds [of g ca csv cb]
  by (cases "csvToData_OldFormat g ca csv"; cases "csvToData_OldFormat g cb csv")
     (auto simp: eraseIdsResult_def)

text \<open>
  C8 (determinism). The claim: two calls of \<^verbatim>\<open>csvToData\<close> on one text give identical
  results, every field of every item included. Each item's \<^verbatim>\<open>itemId\<close> holds the reading
  of \<^verbatim>\<open>Date.now()\<close>, so two calls at different times differ: here, on the five-line
  canonical text, with the clock at 1000 and at 2000.
\<close>

theorem itemId_depends_on_clock_counterexample:
  "csvToData NotDefined (\<lambda>k. 1000) canonText \<noteq> csvToData NotDefined (\<lambda>k. 2000) canonText"
  by code_simp

text \<open>
  C8, amended. \<^verbatim>\<open>dataToCsv\<close> is a function of the record, and the result of
  \<^verbatim>\<open>csvToData\<close> is a function of the text, the global scope and the clock; for one text
  and one global scope, two calls agree on whether they fail, on \<^verbatim>\<open>lfIndexes\<close>, on both
  snapshot objects and on every item field other than \<^verbatim>\<open>itemId\<close>, whatever the clock
  reads.
\<close>

theorem results_agree_up_to_itemId:
  "eraseIdsResult (csvToData g ca csv) = eraseIdsResult (csvToData g cb csv)"
proof (cases "length (splitOn newline (trim csv)) < 4")
  case True
  then have "csvToData g c csv = (case csvToData_OldFormat g c csv of Inr r \<Rightarrow> Inr r | Inl e \<Rightarrow> Inr None)" for c
    by (simp add: csvToData_def csvToData_try_def split: sum.splits)
  moreover have "eraseIdsResult (csvToData_OldFormat g ca csv) = eraseIdsResult (csvToData_OldFormat g cb csv)"
    by (rule oldFormat_eraseIds)
  ultimately show ?thesis
    by (cases "csvToData_OldFormat g ca csv"; cases "csvToData_OldFormat g cb csv")
       (auto simp: eraseIdsResult_def)
next
  case False
  then have "csvToData g c csv = Inr (Some (parseCanonical c (splitOn newline (trim csv))))" for c
    by (simp add: csvToData_def csvToData_try_def)
  then show ?thesis
    by (simp add: eraseIdsResult_def parseCanonical_eraseIds)
qed

subsection \<open>Reading cells\<close>





















subsection \<open>Splitting, joining, trimming, digits\<close>






lemma digit_cases:
  "d < (10::nat) \<Longrightarrow> d = 0 \<or> d = 1 \<or> d = 2 \<or> d = 3 \<or> d = 4 \<or> d = 5 \<or> d = 6 \<or> d = 7 \<or> d = 8 \<or> d = 9"
  by arith

lemma digitChar_props:
  assumes "d < 10"
  shows "isDigit (digitChar d)" "digitVal (digitChar d) = d"
  using digit_cases [OF assms]
  by (elim disjE; simp add: digitChar_def isDigit_def digitVal_def)+

lemma natToString_step:
  "10 \<le> n \<Longrightarrow> natToString n = natToString (n div 10) @ [digitChar (n mod 10)]"
  "n < 10 \<Longrightarrow> natToString n = [digitChar n]"
  by (subst natToString.simps; simp)+

lemma natToString_digits: "c \<in> set (natToString n) \<Longrightarrow> isDigit c"
proof (induction n arbitrary: c rule: natToString.induct)
  case (1 n)
  show ?case
  proof (cases "n < 10")
    case True
    with "1.prems" show ?thesis by (auto simp: natToString_step digitChar_props)
  next
    case False
    with "1.prems" "1.IH" show ?thesis
      by (auto simp: natToString_step digitChar_props)
  qed
qed

lemma natToString_ne: "natToString n \<noteq> []"
  by (subst natToString.simps) simp

lemma digitsVal_snoc: "digitsVal (ds @ [c]) = 10 * digitsVal ds + digitVal c"
  by (simp add: digitsVal_def)

lemma digitsVal_natToString: "digitsVal (natToString n) = n"
proof (induction n rule: natToString.induct)
  case (1 n)
  show ?case
  proof (cases "n < 10")
    case True
    then show ?thesis by (simp add: natToString_step digitsVal_def digitChar_props)
  next
    case False
    with "1.IH" show ?thesis
      by (simp add: natToString_step digitsVal_snoc digitChar_props)
  qed
qed


lemma isDigit_props:
  assumes "isDigit c"
  shows "\<not> isWhiteSpace c" "c \<noteq> comma" "c \<noteq> newline" "c \<noteq> CHR ''-''" "c \<noteq> CHR ''+''"
    "c \<noteq> CHR ''.''" "c \<noteq> CHR ''I''" "lowerChar c = c" "c \<noteq> CHR ''t''" "c \<noteq> CHR ''e''" "c \<noteq> CHR ''E''"
  using assms
  by (auto simp: isDigit_def isWhiteSpace_def comma_def newline_def lowerChar_def)

subsection \<open>Numbers through text\<close>

lemma all_digits_takeWhile: "\<forall>c \<in> set ds. isDigit c \<Longrightarrow> takeWhile isDigit (ds @ rest) = ds @ takeWhile isDigit rest"
  by (simp add: takeWhile_append2)

lemma all_digits_dropWhile: "\<forall>c \<in> set ds. isDigit c \<Longrightarrow> dropWhile isDigit (ds @ rest) = dropWhile isDigit rest"
  by (simp add: dropWhile_append2)

lemma not_digit_dot [simp]: "\<not> isDigit (CHR ''.'')"
  by (simp add: isDigit_def)

lemma digits_hd:
  assumes "ds \<noteq> []" "\<forall>c \<in> set ds. isDigit c"
  shows "isDigit (hd (ds @ rest))"
  using assms by (cases ds) simp_all

lemma trimStart_digit: "s \<noteq> [] \<Longrightarrow> isDigit (hd s) \<Longrightarrow> trimStart s = s"
  by (cases s) (simp_all add: trimStart_def isDigit_props)

lemma trimStart_minus: "trimStart (CHR ''-'' # s) = CHR ''-'' # s"
  by (simp add: trimStart_def isWhiteSpace_def)

lemma takeSign_digit: "s \<noteq> [] \<Longrightarrow> isDigit (hd s) \<Longrightarrow> takeSign s = (False, s)"
  by (cases s) (auto simp: takeSign_def isDigit_props)

lemma takeSign_minus: "takeSign (CHR ''-'' # s) = (True, s)"
  by (simp add: takeSign_def)

lemma not_Infinity: "s \<noteq> [] \<Longrightarrow> isDigit (hd s) \<Longrightarrow> \<not> startsWith ''Infinity'' s"
  by (cases s) (auto simp: startsWith_def isDigit_props)

lemma parseInt10_digits:
  assumes "ds \<noteq> []" "\<forall>c \<in> set ds. isDigit c"
  shows "parseInt10 ds = Fin (of_nat (digitsVal ds))"
    and "parseInt10 (CHR ''-'' # ds) = Fin (- of_nat (digitsVal ds))"
proof -
  from assms have hd: "isDigit (hd ds)" by (cases ds) simp_all
  have tw: "takeWhile isDigit ds = ds"
    using assms(2) by (simp add: takeWhile_eq_all_conv)
  show "parseInt10 ds = Fin (of_nat (digitsVal ds))"
    using assms(1) hd by (simp add: parseInt10_def trimStart_digit takeSign_digit tw Let_def)
  show "parseInt10 (CHR ''-'' # ds) = Fin (- of_nat (digitsVal ds))"
    using assms(1) by (simp add: parseInt10_def trimStart_minus takeSign_minus tw Let_def)
qed

lemma exponentPart_Nil: "exponentPart [] = 0"
  by (simp add: exponentPart_def)

lemma parseFloat_unsigned:
  assumes "ip \<noteq> []" "\<forall>c \<in> set ip. isDigit c" "\<forall>c \<in> set fp. isDigit c"
  shows "parseFloat ip = Fin (of_nat (digitsVal ip))"
    and "parseFloat (ip @ CHR ''.'' # fp) = Fin (of_nat (digitsVal (ip @ fp)) / 10 ^ length fp)"
    and "parseFloat (CHR ''-'' # ip) = Fin (- of_nat (digitsVal ip))"
    and "parseFloat (CHR ''-'' # ip @ CHR ''.'' # fp) = Fin (- (of_nat (digitsVal (ip @ fp)) / 10 ^ length fp))"
proof -
  have hd: "isDigit (hd (ip @ rest))" for rest
    using assms(1,2) by (rule digits_hd)
  have ne: "ip @ rest \<noteq> []" for rest
    using assms(1) by simp
  have tw: "takeWhile isDigit ip = ip" "dropWhile isDigit ip = []"
    using assms(2) by (simp_all add: takeWhile_eq_all_conv)
  have tw2: "takeWhile isDigit (ip @ CHR ''.'' # fp) = ip" "dropWhile isDigit (ip @ CHR ''.'' # fp) = CHR ''.'' # fp"
    using assms(2) by (simp_all add: all_digits_takeWhile all_digits_dropWhile)
  have tw3: "takeWhile isDigit fp = fp" "dropWhile isDigit fp = []"
    using assms(3) by (simp_all add: takeWhile_eq_all_conv)
  have sc: "scale10 m (- int (length fp)) = m / 10 ^ length fp" for m
    by (simp add: scale10_def)
  have sc0: "scale10 m 0 = m" for m
    by (simp add: scale10_def)
  have inf: "\<not> startsWith ''Infinity'' (ip @ rest)" for rest
    using ne hd by (rule not_Infinity)
  show "parseFloat ip = Fin (of_nat (digitsVal ip))"
    using hd [of "[]"] assms(1) inf [of "[]"]
    by (simp add: parseFloat_def trimStart_digit takeSign_digit exponentPart_Nil sc0 tw Let_def)
  show "parseFloat (ip @ CHR ''.'' # fp) = Fin (of_nat (digitsVal (ip @ fp)) / 10 ^ length fp)"
    using hd [of "CHR ''.'' # fp"] inf [of "CHR ''.'' # fp"] assms(1)
    by (simp add: parseFloat_def trimStart_digit takeSign_digit exponentPart_Nil sc tw2 tw3 Let_def)
  show "parseFloat (CHR ''-'' # ip) = Fin (- of_nat (digitsVal ip))"
    using inf [of "[]"] assms(1)
    by (simp add: parseFloat_def trimStart_minus takeSign_minus exponentPart_Nil sc0 tw Let_def)
  show "parseFloat (CHR ''-'' # ip @ CHR ''.'' # fp) = Fin (- (of_nat (digitsVal (ip @ fp)) / 10 ^ length fp))"
    using inf [of "CHR ''.'' # fp"] assms(1)
    by (simp add: parseFloat_def trimStart_minus takeSign_minus exponentPart_Nil sc tw2 tw3 Let_def)
qed





subsection \<open>Fields through a row\<close>

lemma intText_props:
  shows intText_ne: "intText k \<noteq> []"
    and intText_hd: "\<not> isWhiteSpace (hd (intText k))"
    and intText_plain: "plainText (intText k)"
    and parseInt10_intText: "parseInt10 (intText k) = Fin (of_int k)"
    and parseFloat_intText: "parseFloat (intText k) = Fin (of_int k)"
proof -
  have dig: "\<forall>c \<in> set (natToString n). isDigit c" for n
    by (simp add: natToString_digits)
  have hdn: "isDigit (hd (natToString n))" for n
    using natToString_ne [of n] dig [of n] by (cases "natToString n") simp_all
  have pl: "plainText (natToString n)" for n
    using dig [of n] by (auto simp: plainText_def dest: isDigit_props)
  show "intText k \<noteq> []"
    by (simp add: intText_def natToString_ne)
  show "\<not> isWhiteSpace (hd (intText k))"
  proof (cases "k < 0")
    case True
    then show ?thesis by (simp add: intText_def isWhiteSpace_def)
  next
    case False
    then show ?thesis using hdn [of "nat k"] by (simp add: intText_def isDigit_props(1))
  qed
  show "plainText (intText k)"
    using pl by (simp add: intText_def plainText_def comma_def newline_def)
  show "parseInt10 (intText k) = Fin (of_int k)"
    using parseInt10_digits [OF natToString_ne dig]
    by (simp add: intText_def digitsVal_natToString)
  show "parseFloat (intText k) = Fin (of_int k)"
    using parseFloat_unsigned(1,3) [OF natToString_ne dig, of "[]"]
    by (simp add: intText_def digitsVal_natToString)
qed











subsection \<open>The shape of the CSV text\<close>
























subsection \<open>Looking up what the project row stored\<close>











subsection \<open>The first lines of the CSV text\<close>









subsection \<open>An exact item through its row\<close>





subsection \<open>The LF column and the rows of exact items\<close>







lemma zip_upt: "zip xs [0 ..< length xs] = map (\<lambda>i. (xs ! i, i)) [0 ..< length xs]"
  by (rule nth_equalityI) simp_all



subsection \<open>The snapshot through the project row\<close>








subsection \<open>Items without a size\<close>



subsection \<open>Commas and line breaks in values\<close>






subsection \<open>The round trip\<close>




end
